theory Spec2Isabelle
  imports Complex_Main "HOL-Library.Sublist"
begin

section \<open>Python values and the built-ins the pipelines use\<close>

text \<open>
  Both entry points (\<^verbatim>\<open>run_pipeline\<close> in api.py, \<^verbatim>\<open>process_video\<close> in admin.py) handle
  dynamically typed data: the parsed reply of the generative service and the dictionaries
  sent to the database. A Python value is a \<open>pyval\<close>; a dictionary is the list of its items
  in insertion order (its keys are distinct, as \<^verbatim>\<open>json.loads\<close> builds them).

  A \<open>string\<close> stands for a Python \<^verbatim>\<open>str\<close> whose code points are below 256: one \<open>char\<close> is
  one code point, so \<open>length\<close> is Python's \<^verbatim>\<open>len\<close>.
\<close>

datatype pyval =
    PNone
  | PBool bool
  | PInt int
  | PFloat real
  | PStr string
  | PList "pyval list"
  | PDict "(string \<times> pyval) list"

text \<open>\<^verbatim>\<open>if x:\<close>, the truth value of a Python object.\<close>

fun truthy :: "pyval \<Rightarrow> bool" where
  "truthy PNone = False"
| "truthy (PBool b) = b"
| "truthy (PInt n) = (n \<noteq> 0)"
| "truthy (PFloat r) = (r \<noteq> 0)"
| "truthy (PStr s) = (s \<noteq> [])"
| "truthy (PList xs) = (xs \<noteq> [])"
| "truthy (PDict kvs) = (kvs \<noteq> [])"

text \<open>
  \<^verbatim>\<open>for x in v\<close>: a string yields its characters, a list its elements, a dictionary its
  keys; anything else raises TypeError (\<open>None\<close>).
\<close>

fun py_iter :: "pyval \<Rightarrow> pyval list option" where
  "py_iter (PStr s) = Some (map (\<lambda>c. PStr [c]) s)"
| "py_iter (PList xs) = Some xs"
| "py_iter (PDict kvs) = Some (map (\<lambda>kv. PStr (fst kv)) kvs)"
| "py_iter PNone = None"
| "py_iter (PBool b) = None"
| "py_iter (PInt n) = None"
| "py_iter (PFloat r) = None"

text \<open>
  \<^verbatim>\<open>v.get(k, d)\<close>: only a dictionary has the method; on any other value the call raises
  AttributeError (\<open>None\<close>).
\<close>

fun dict_get :: "pyval \<Rightarrow> string \<Rightarrow> pyval \<Rightarrow> pyval option" where
  "dict_get (PDict kvs) k d = Some (case map_of kvs k of Some v \<Rightarrow> v | None \<Rightarrow> d)"
| "dict_get PNone k d = None"
| "dict_get (PBool b) k d = None"
| "dict_get (PInt n) k d = None"
| "dict_get (PFloat r) k d = None"
| "dict_get (PStr s) k d = None"
| "dict_get (PList xs) k d = None"

text \<open>
  \<^verbatim>\<open>v[k]\<close> with a string key: KeyError on a dictionary without the key, TypeError on
  every other value (\<open>None\<close> in both cases).
\<close>

fun subscript :: "pyval \<Rightarrow> string \<Rightarrow> pyval option" where
  "subscript (PDict kvs) k = map_of kvs k"
| "subscript PNone k = None"
| "subscript (PBool b) k = None"
| "subscript (PInt n) k = None"
| "subscript (PFloat r) k = None"
| "subscript (PStr s) k = None"
| "subscript (PList xs) k = None"

text \<open>
  \<^verbatim>\<open>str.isalnum\<close> of one character, on the code points below 256: the ASCII digits and
  letters, and the Latin-1 letters, superscript digits and fractions.
\<close>

definition isalnum :: "char \<Rightarrow> bool" where
  "isalnum c =
     (let n = (of_char c :: nat) in
        (48 \<le> n \<and> n \<le> 57) \<or> (65 \<le> n \<and> n \<le> 90) \<or> (97 \<le> n \<and> n \<le> 122) \<or>
        n = 170 \<or> n = 178 \<or> n = 179 \<or> n = 181 \<or> n = 185 \<or> n = 186 \<or>
        (188 \<le> n \<and> n \<le> 190) \<or> (192 \<le> n \<and> n \<le> 214) \<or> (216 \<le> n \<and> n \<le> 246) \<or>
        (248 \<le> n \<and> n \<le> 255))"

text \<open>\<^verbatim>\<open>s.isalnum()\<close>: false on the empty string.\<close>

definition str_isalnum :: "string \<Rightarrow> bool" where
  "str_isalnum s = (s \<noteq> [] \<and> list_all isalnum s)"

text \<open>\<^verbatim>\<open>x in s\<close> on two strings: \<open>x\<close> occurs in \<open>s\<close> as a contiguous piece.\<close>

fun str_contains :: "string \<Rightarrow> string \<Rightarrow> bool" where
  "str_contains x [] = (x = [])"
| "str_contains x (c # cs) = (prefix x (c # cs) \<or> str_contains x cs)"

text \<open>
  \<^verbatim>\<open>s.replace(old, new)\<close>: every occurrence of \<open>old\<close>, left to right, without overlap; an
  empty \<open>old\<close> matches before every character and at the end.
\<close>

fun replace :: "string \<Rightarrow> string \<Rightarrow> string \<Rightarrow> string" where
  "replace [] new s = new @ concat (map (\<lambda>c. c # new) s)"
| "replace (a # as) new [] = []"
| "replace (a # as) new (c # cs) =
     (if prefix (a # as) (c # cs) then new @ replace (a # as) new (drop (length as) cs)
      else c # replace (a # as) new cs)"

text \<open>\<^verbatim>\<open>int(x)\<close> of a finite float: truncation towards zero.\<close>

definition py_int :: "real \<Rightarrow> int" where
  "py_int r = (if 0 \<le> r then \<lfloor>r\<rfloor> else \<lceil>r\<rceil>)"


text \<open>
  Line 136 of api.py:
  \<^verbatim>\<open>"".join(x for x in meta.get('title', 'Video') if x.isalnum() or x in " _-")\<close>.
  The generator walks whatever the reply holds under \<^verbatim>\<open>title\<close>; an element that is not a
  string has no \<^verbatim>\<open>isalnum\<close> and the expression raises (\<open>None\<close>).
\<close>

fun join_kept :: "pyval list \<Rightarrow> string option" where
  "join_kept [] = Some []"
| "join_kept (PStr x # xs) =
     (case join_kept xs of
        None \<Rightarrow> None
      | Some r \<Rightarrow> Some (if str_isalnum x \<or> str_contains x '' _-'' then x @ r else r))"
| "join_kept (v # xs) = None"

definition safe_title :: "pyval \<Rightarrow> string option" where
  "safe_title meta =
     (case dict_get meta ''title'' (PStr ''Video'') of
        None \<Rightarrow> None
      | Some t \<Rightarrow> (case py_iter t of None \<Rightarrow> None | Some xs \<Rightarrow> join_kept xs))"

section \<open>The world a run acts on\<close>

text \<open>
  The durable stores and the local disk: the files present, the \<^verbatim>\<open>videos\<close> bucket (a
  key holds one object, named here by the local file its bytes were read from; every
  upload is sent with \<^verbatim>\<open>x-upsert: true\<close>), and the two tables with the dictionaries
  inserted into them.
\<close>

record world =
  files :: "string set"
  videos :: "string \<rightharpoonup> string"
  content_library :: "pyval list"
  questions_table :: "pyval list"

text \<open>
  What the outside answers during one run. Each external call is made at most once per
  run, so one answer per call suffices; \<open>None\<close> and \<open>False\<close> mean that the call raises.
\<close>

datatype insert_reply = InsertRaises | ReplyWithoutId | ReplyId pyval

record env =
  ydl_extract_info :: "string \<Rightarrow> (string \<times> string option) option"
  tempfile_name :: string
  clip_duration :: "real option"
  write_audiofile :: bool
  transcriptions_create :: "string option"
  chat_completion :: "pyval option"
  storage_upload :: bool
  get_public_url :: "string option"
  content_insert :: insert_reply
  questions_insert :: bool

text \<open>
  \<^item> \<open>ydl_extract_info url\<close>: the file name yt-dlp prepared and the title of its info
    dictionary when it has one;
  \<^item> \<open>tempfile_name\<close>: the name \<^verbatim>\<open>NamedTemporaryFile\<close> draws, without its suffix;
  \<^item> \<open>clip_duration\<close>: \<^verbatim>\<open>VideoFileClip(path).duration\<close>, a finite float;
  \<^item> \<open>chat_completion\<close>: \<^verbatim>\<open>json.loads\<close> of the reply's content (\<open>None\<close> when the request or
    the parse raises);
  \<^item> \<open>content_insert\<close>: the insert raises, or the row is stored and \<^verbatim>\<open>res.data[0]['id']\<close>
    raises, or the row is stored and that is its id.
\<close>

datatype stage = Acquiring | ExtractingAudio | Transcribing | Synthesizing | Publishing | Persisting

text \<open>
  How a run ends: it reaches its last line without a failure (\<open>Done\<close>), a handler caught
  a failure of the stage (\<open>Aborted\<close>), an exception left the function (\<open>Raised\<close>), or the
  URL was empty.
\<close>

datatype outcome = Done | Aborted stage | Raised stage | EmptyUrl | RaisedInCleanup

text \<open>The external requests, in the order a run makes them.\<close>

datatype call =
    Download string
  | WriteTemp string
  | OpenClip string
  | WriteAudio string
  | Transcribe string
  | ChatCompletion string
  | Upload string string
  | GetPublicUrl string
  | InsertContent pyval
  | InsertQuestions pyval

record run =
  outcome :: outcome
  calls :: "call list"
  final :: world

definition stop :: "outcome \<Rightarrow> world \<Rightarrow> run" where
  "stop out w = \<lparr>outcome = out, calls = [], final = w\<rparr>"

definition after :: "call list \<Rightarrow> run \<Rightarrow> run" where
  "after cs r = r\<lparr>calls := cs @ calls r\<rparr>"

fun stage_of :: "call \<Rightarrow> stage" where
  "stage_of (Download u) = Acquiring"
| "stage_of (WriteTemp p) = Acquiring"
| "stage_of (OpenClip p) = ExtractingAudio"
| "stage_of (WriteAudio p) = ExtractingAudio"
| "stage_of (Transcribe p) = Transcribing"
| "stage_of (ChatCompletion t) = Synthesizing"
| "stage_of (Upload k p) = Publishing"
| "stage_of (GetPublicUrl k) = Publishing"
| "stage_of (InsertContent row) = Persisting"
| "stage_of (InsertQuestions rows) = Persisting"

section \<open>api.py: the URL-trigger entry point\<close>

text \<open>\<^verbatim>\<open>download_video\<close> (lines 30 to 40): \<^verbatim>\<open>info.get('title', 'Unknown')\<close>.\<close>

definition download_video :: "env \<Rightarrow> string \<Rightarrow> (string \<times> string) option" where
  "download_video e url =
     (case ydl_extract_info e url of
        None \<Rightarrow> None
      | Some (name, t) \<Rightarrow> Some (name, (case t of None \<Rightarrow> ''Unknown'' | Some s \<Rightarrow> s)))"

text \<open>Lines 192 and 193: \<^verbatim>\<open>if os.path.exists(p): os.remove(p)\<close>.\<close>

definition remove_if_exists :: "string \<Rightarrow> world \<Rightarrow> world" where
  "remove_if_exists p w = (if p \<in> files w then w\<lparr>files := files w - {p}\<rparr> else w)"

definition api_cleanup :: "string \<Rightarrow> string \<Rightarrow> outcome \<Rightarrow> world \<Rightarrow> run" where
  "api_cleanup video_path audio_path out w =
     stop out (remove_if_exists audio_path (remove_if_exists video_path w))"

text \<open>Lines 176 to 182: one row per element \<open>q\<close>; \<open>q.get\<close> needs a dictionary.\<close>

definition api_question_row :: "pyval \<Rightarrow> pyval \<Rightarrow> pyval option" where
  "api_question_row new_id q =
     (case dict_get q ''stage'' (PInt 0) of
        None \<Rightarrow> None
      | Some st \<Rightarrow>
     (case dict_get q ''q'' (PStr ''Error'') of
        None \<Rightarrow> None
      | Some qt \<Rightarrow>
     (case dict_get q ''correct'' (PStr ''Error'') of
        None \<Rightarrow> None
      | Some co \<Rightarrow>
     (case dict_get q ''wrong'' (PList []) of
        None \<Rightarrow> None
      | Some wr \<Rightarrow>
          Some (PDict [(''video_id'', new_id), (''difficulty_phase'', st),
                       (''question_text'', qt), (''correct_answer'', co),
                       (''wrong_options'', wr)])))))"

text \<open>
  Step 6 and 7 (lines 151 to 194). The dictionary \<open>vid_data\<close> is built outside the
  \<^verbatim>\<open>try\<close>; every failure inside it is caught, reported, and followed by the cleanup.
\<close>

definition api_save_db ::
  "env \<Rightarrow> string \<Rightarrow> string \<Rightarrow> string \<Rightarrow> real \<Rightarrow> pyval \<Rightarrow> pyval \<Rightarrow> string \<Rightarrow> world \<Rightarrow> run" where
  "api_save_db e video_path audio_path transcript_text duration meta questions public_url w =
     (case dict_get meta ''category'' (PStr ''General'') of
        None \<Rightarrow> stop (Raised Persisting) w
      | Some category_val \<Rightarrow>
     (case dict_get meta ''sub_category'' PNone of
        None \<Rightarrow> stop (Raised Persisting) w
      | Some sub_cat_val \<Rightarrow>
     (case dict_get meta ''title'' (PStr ''Untitled'') of
        None \<Rightarrow> stop (Raised Persisting) w
      | Some title \<Rightarrow>
        let vid_data = PDict [(''video_url'', PStr public_url), (''title'', title),
                              (''transcript_text'', PStr transcript_text),
                              (''category'', category_val), (''sub_category'', sub_cat_val),
                              (''duration_seconds'', PInt (py_int duration))]
        in after [InsertContent vid_data]
          (case content_insert e of
             InsertRaises \<Rightarrow> api_cleanup video_path audio_path (Aborted Persisting) w
           | ReplyWithoutId \<Rightarrow>
               api_cleanup video_path audio_path (Aborted Persisting)
                 (w\<lparr>content_library := content_library w @ [vid_data]\<rparr>)
           | ReplyId new_id \<Rightarrow>
               let w1 = w\<lparr>content_library := content_library w @ [vid_data]\<rparr> in
               if truthy questions then
                 (case py_iter questions of
                    None \<Rightarrow> api_cleanup video_path audio_path (Aborted Persisting) w1
                  | Some qs \<Rightarrow>
                 (case those (map (api_question_row new_id) qs) of
                    None \<Rightarrow> api_cleanup video_path audio_path (Aborted Persisting) w1
                  | Some q_inserts \<Rightarrow>
                      after [InsertQuestions (PList q_inserts)]
                        (if questions_insert e
                         then api_cleanup video_path audio_path Done
                                (w1\<lparr>questions_table := questions_table w1 @ q_inserts\<rparr>)
                         else api_cleanup video_path audio_path (Aborted Persisting) w1)))
               else api_cleanup video_path audio_path Done w1))))"

text \<open>
  Step 5 (lines 133 to 149). The file name is computed outside the \<^verbatim>\<open>try\<close>; a failed
  upload or URL lookup is caught and the function returns.
\<close>

definition api_filename :: "string \<Rightarrow> string" where
  "api_filename safe = replace '' '' ''_'' safe @ ''.mp4''"

definition api_upload ::
  "env \<Rightarrow> string \<Rightarrow> string \<Rightarrow> string \<Rightarrow> real \<Rightarrow> pyval \<Rightarrow> pyval \<Rightarrow> world \<Rightarrow> run" where
  "api_upload e video_path audio_path transcript_text duration meta questions w =
     (case safe_title meta of
        None \<Rightarrow> stop (Raised Publishing) w
      | Some safe \<Rightarrow>
        let filename = api_filename safe in
        after [Upload filename video_path]
          (if \<not> storage_upload e then stop (Aborted Publishing) w
           else
             let w1 = w\<lparr>videos := (videos w)(filename \<mapsto> video_path)\<rparr> in
             after [GetPublicUrl filename]
               (case get_public_url e of
                  None \<Rightarrow> stop (Aborted Publishing) w1
                | Some public_url \<Rightarrow>
                    api_save_db e video_path audio_path transcript_text duration
                      meta questions public_url w1)))"

text \<open>
  Step 4 (lines 83 to 131): the request carries \<^verbatim>\<open>transcript_text[:15000]\<close>; the request,
  the parse and the two \<^verbatim>\<open>ai_data.get\<close> stand inside one \<^verbatim>\<open>try\<close>.
\<close>

definition api_analyze ::
  "env \<Rightarrow> string \<Rightarrow> string \<Rightarrow> string \<Rightarrow> real \<Rightarrow> world \<Rightarrow> run" where
  "api_analyze e video_path audio_path transcript_text duration w =
     after [ChatCompletion (take 15000 transcript_text)]
       (case chat_completion e of
          None \<Rightarrow> stop (Aborted Synthesizing) w
        | Some ai_data \<Rightarrow>
       (case dict_get ai_data ''metadata'' (PDict []) of
          None \<Rightarrow> stop (Aborted Synthesizing) w
        | Some meta \<Rightarrow>
       (case dict_get ai_data ''questions'' (PList []) of
          None \<Rightarrow> stop (Aborted Synthesizing) w
        | Some questions \<Rightarrow>
            api_upload e video_path audio_path transcript_text duration meta questions w)))"

text \<open>Step 3 (lines 73 to 81): no handler around the request; then the length guard.\<close>

definition api_transcribe :: "env \<Rightarrow> string \<Rightarrow> string \<Rightarrow> real \<Rightarrow> world \<Rightarrow> run" where
  "api_transcribe e video_path audio_path duration w =
     after [Transcribe audio_path]
       (case transcriptions_create e of
          None \<Rightarrow> stop (Raised Transcribing) w
        | Some transcript_text \<Rightarrow>
            if length transcript_text < 20 then stop (Aborted Transcribing) w
            else api_analyze e video_path audio_path transcript_text duration w)"

text \<open>Step 2 (lines 57 to 71), with the duration guard of line 62.\<close>

definition api_extract_audio :: "env \<Rightarrow> string \<Rightarrow> world \<Rightarrow> run" where
  "api_extract_audio e video_path w =
     (let audio_path = replace ''.mp4'' ''.mp3'' video_path in
      after [OpenClip video_path]
        (case clip_duration e of
           None \<Rightarrow> stop (Aborted ExtractingAudio) w
         | Some d \<Rightarrow>
             if d < 5 then stop (Aborted ExtractingAudio) w
             else after [WriteAudio audio_path]
               (if write_audiofile e
                then api_transcribe e video_path audio_path d
                       (w\<lparr>files := insert audio_path (files w)\<rparr>)
                else stop (Aborted ExtractingAudio) w)))"

text \<open>\<^verbatim>\<open>run_pipeline\<close> (lines 43 to 194), from the guard on the URL and the download.\<close>

definition run_pipeline :: "env \<Rightarrow> string \<Rightarrow> world \<Rightarrow> run" where
  "run_pipeline e url w =
     (if url = [] then stop EmptyUrl w
      else after [Download url]
        (case download_video e url of
           None \<Rightarrow> stop (Aborted Acquiring) w
         | Some (video_path, source_title) \<Rightarrow>
             api_extract_audio e video_path (w\<lparr>files := insert video_path (files w)\<rparr>)))"

section \<open>admin.py: the upload entry point\<close>

text \<open>
  \<^verbatim>\<open>process_video\<close> (lines 46 to 147). Only the audio extraction stands inside a
  \<^verbatim>\<open>try\<close>; every other failure leaves the function as an exception. The steps run in
  the order the file numbers them: the upload is step 4, the generative request step 5.
\<close>

text \<open>Lines 142 and 143: \<^verbatim>\<open>os.remove(p)\<close> raises when the file is missing.\<close>

definition os_remove :: "string \<Rightarrow> world \<Rightarrow> world option" where
  "os_remove p w = (if p \<in> files w then Some (w\<lparr>files := files w - {p}\<rparr>) else None)"

definition admin_cleanup :: "string \<Rightarrow> string \<Rightarrow> world \<Rightarrow> run" where
  "admin_cleanup temp_video_path audio_path w =
     (case os_remove temp_video_path w of
        None \<Rightarrow> stop RaisedInCleanup w
      | Some w1 \<Rightarrow>
     (case os_remove audio_path w1 of
        None \<Rightarrow> stop RaisedInCleanup w1
      | Some w2 \<Rightarrow> stop Done w2))"

text \<open>Lines 132 to 138: one row per element \<open>item\<close>, every field read with \<^verbatim>\<open>item[...]\<close>.\<close>

definition admin_question_row :: "pyval \<Rightarrow> pyval \<Rightarrow> pyval option" where
  "admin_question_row new_video_id item =
     (case subscript item ''stage'' of
        None \<Rightarrow> None
      | Some st \<Rightarrow>
     (case subscript item ''q'' of
        None \<Rightarrow> None
      | Some qt \<Rightarrow>
     (case subscript item ''correct'' of
        None \<Rightarrow> None
      | Some co \<Rightarrow>
     (case subscript item ''wrong'' of
        None \<Rightarrow> None
      | Some wr \<Rightarrow>
          Some (PDict [(''video_id'', new_video_id), (''difficulty_phase'', st),
                       (''question_text'', qt), (''correct_answer'', co),
                       (''wrong_options'', wr)])))))"

text \<open>Step 6 (lines 113 to 147): the two inserts, then the cleanup.\<close>

definition admin_save_db ::
  "env \<Rightarrow> string \<Rightarrow> string \<Rightarrow> string \<Rightarrow> string \<Rightarrow> string \<Rightarrow> string \<Rightarrow> real \<Rightarrow>
   string \<Rightarrow> pyval \<Rightarrow> world \<Rightarrow> run" where
  "admin_save_db e temp_video_path audio_path title' category' sub_category' transcript_text
     duration public_url questions_json w =
     (let full_category =
            (if sub_category' \<noteq> [] then category' @ '' > '' @ sub_category' else category');
          video_data = PDict [(''video_url'', PStr public_url), (''title'', PStr title'),
                              (''transcript_text'', PStr transcript_text),
                              (''category'', PStr full_category),
                              (''duration_seconds'', PInt (py_int duration))]
      in after [InsertContent video_data]
        (case content_insert e of
           InsertRaises \<Rightarrow> stop (Raised Persisting) w
         | ReplyWithoutId \<Rightarrow>
             stop (Raised Persisting) (w\<lparr>content_library := content_library w @ [video_data]\<rparr>)
         | ReplyId new_video_id \<Rightarrow>
             let w1 = w\<lparr>content_library := content_library w @ [video_data]\<rparr> in
             (case subscript questions_json ''questions'' of
                None \<Rightarrow> stop (Raised Persisting) w1
              | Some qv \<Rightarrow>
             (case py_iter qv of
                None \<Rightarrow> stop (Raised Persisting) w1
              | Some items \<Rightarrow>
             (case those (map (admin_question_row new_video_id) items) of
                None \<Rightarrow> stop (Raised Persisting) w1
              | Some q_inserts \<Rightarrow>
                  after [InsertQuestions (PList q_inserts)]
                    (if questions_insert e
                     then admin_cleanup temp_video_path audio_path
                            (w1\<lparr>questions_table := questions_table w1 @ q_inserts\<rparr>)
                     else stop (Raised Persisting) w1))))))"

text \<open>Step 5 (lines 91 to 111): the generative request and \<^verbatim>\<open>json.loads\<close>.\<close>

definition admin_generate_questions ::
  "env \<Rightarrow> string \<Rightarrow> string \<Rightarrow> string \<Rightarrow> string \<Rightarrow> string \<Rightarrow> string \<Rightarrow> real \<Rightarrow>
   string \<Rightarrow> world \<Rightarrow> run" where
  "admin_generate_questions e temp_video_path audio_path title' category' sub_category'
     transcript_text duration public_url w =
     after [ChatCompletion (take 15000 transcript_text)]
       (case chat_completion e of
          None \<Rightarrow> stop (Raised Synthesizing) w
        | Some questions_json \<Rightarrow>
            admin_save_db e temp_video_path audio_path title' category' sub_category'
              transcript_text duration public_url questions_json w)"

text \<open>Step 4 (lines 77 to 89): the storage key of line 81, the upload, the public URL.\<close>

definition admin_file_name :: "string \<Rightarrow> string" where
  "admin_file_name title' = replace '' '' ''_'' title' @ ''.mp4''"

definition admin_upload ::
  "env \<Rightarrow> string \<Rightarrow> string \<Rightarrow> string \<Rightarrow> string \<Rightarrow> string \<Rightarrow> string \<Rightarrow> real \<Rightarrow>
   world \<Rightarrow> run" where
  "admin_upload e temp_video_path audio_path title' category' sub_category' transcript_text
     duration w =
     (let file_name = admin_file_name title' in
      after [Upload file_name temp_video_path]
        (if \<not> storage_upload e then stop (Raised Publishing) w
         else
           let w1 = w\<lparr>videos := (videos w)(file_name \<mapsto> temp_video_path)\<rparr> in
           after [GetPublicUrl file_name]
             (case get_public_url e of
                None \<Rightarrow> stop (Raised Publishing) w1
              | Some public_url \<Rightarrow>
                  admin_generate_questions e temp_video_path audio_path title' category'
                    sub_category' transcript_text duration public_url w1)))"

text \<open>Step 3 (lines 66 to 75): the transcription; no guard on its length follows.\<close>

definition admin_transcribe ::
  "env \<Rightarrow> string \<Rightarrow> string \<Rightarrow> string \<Rightarrow> string \<Rightarrow> string \<Rightarrow> real \<Rightarrow> world \<Rightarrow> run" where
  "admin_transcribe e temp_video_path audio_path title' category' sub_category' duration w =
     after [Transcribe audio_path]
       (case transcriptions_create e of
          None \<Rightarrow> stop (Raised Transcribing) w
        | Some transcript_text \<Rightarrow>
            admin_upload e temp_video_path audio_path title' category' sub_category'
              transcript_text duration w)"

text \<open>
  Steps 1 and 2 (lines 47 to 64): the upload is written to a temporary file with the
  suffix \<^verbatim>\<open>.mp4\<close>, the audio goes to the fixed name \<^verbatim>\<open>temp_audio.mp3\<close>; the handler of
  line 62 reports the failure and returns.
\<close>

definition process_video ::
  "env \<Rightarrow> string \<Rightarrow> string \<Rightarrow> string \<Rightarrow> string \<Rightarrow> world \<Rightarrow> run" where
  "process_video e uploaded_file title' category' sub_category' w =
     (let temp_video_path = tempfile_name e @ ''.mp4'';
          w1 = w\<lparr>files := insert temp_video_path (files w)\<rparr>;
          audio_path = ''temp_audio.mp3''
      in after [WriteTemp temp_video_path, OpenClip temp_video_path]
        (case clip_duration e of
           None \<Rightarrow> stop (Aborted ExtractingAudio) w1
         | Some duration \<Rightarrow>
             after [WriteAudio audio_path]
               (if write_audiofile e
                then admin_transcribe e temp_video_path audio_path title' category'
                       sub_category' duration (w1\<lparr>files := insert audio_path (files w1)\<rparr>)
                else stop (Aborted ExtractingAudio) w1)))"

section \<open>The trigger surface\<close>

text \<open>
  \<^verbatim>\<open>capture_video\<close> (api.py, lines 197 to 200) schedules \<^verbatim>\<open>run_pipeline\<close> on the request's
  URL and answers; the request model types \<^verbatim>\<open>url\<close> as a string. The answer is the pair of
  the response's \<^verbatim>\<open>status\<close> and \<^verbatim>\<open>message\<close>; the scheduled task is the URL passed on.
\<close>

record response =
  status :: string
  message :: string

definition capture_video :: "string \<Rightarrow> response \<times> string list" where
  "capture_video url =
     (\<lparr>status = ''processing'', message = ''Fluency is curating this video...''\<rparr>, [url])"

text \<open>
  The form of admin.py (lines 173 to 176): \<^verbatim>\<open>uploaded_file\<close> is \<open>None\<close> when no file was
  chosen, and an empty title is false.
\<close>

datatype form_action = Process string string | Warning string | Idle

definition upload_form :: "bool \<Rightarrow> string option \<Rightarrow> string \<Rightarrow> form_action" where
  "upload_form submitted uploaded_file title' =
     (case uploaded_file of
        Some f \<Rightarrow>
          if submitted \<and> title' \<noteq> [] then Process f title'
          else if submitted then Warning ''Please upload a file and give it a title.''
          else Idle
      | None \<Rightarrow>
          if submitted then Warning ''Please upload a file and give it a title.'' else Idle)"

section \<open>Scenarios and the notions the properties are stated with\<close>

text \<open>
  A run in which every external call succeeds: a clip of 30 seconds, the transcript of the
  specification's scenario A, and a generative reply that holds an empty \<^verbatim>\<open>questions\<close>
  array and no \<^verbatim>\<open>metadata\<close> (scenario D). The other scenarios change one answer of it.
\<close>

definition env_ok :: env where
  "env_ok =
     \<lparr>ydl_extract_info = (\<lambda>u. Some (''temp_abc.mp4'', Some ''Clip'')),
      tempfile_name = ''/tmp/tmpq1'',
      clip_duration = Some 30,
      write_audiofile = True,
      transcriptions_create =
        Some ''This is a valid transcript about gravity and motion in classical mechanics.'',
      chat_completion = Some (PDict [(''questions'', PList [])]),
      storage_upload = True,
      get_public_url = Some ''https://cdn.example/videos/x.mp4'',
      content_insert = ReplyId (PInt 1),
      questions_insert = True\<rparr>"

text \<open>An empty disk, bucket and database.\<close>

definition world0 :: world where
  "world0 = \<lparr>files = {}, videos = Map.empty, content_library = [], questions_table = []\<rparr>"

text \<open>
  The order of the stages in the specification's state machine, which \<^verbatim>\<open>run_pipeline\<close>
  follows, and the order in which \<^verbatim>\<open>process_video\<close> numbers its steps (the upload before
  the generative request). A list of requests is in order when the ranks of its stages
  never decrease: every stage is one block, and no stage is entered again.
\<close>

fun linear_rank :: "stage \<Rightarrow> nat" where
  "linear_rank Acquiring = 0"
| "linear_rank ExtractingAudio = 1"
| "linear_rank Transcribing = 2"
| "linear_rank Synthesizing = 3"
| "linear_rank Publishing = 4"
| "linear_rank Persisting = 5"

fun upload_rank :: "stage \<Rightarrow> nat" where
  "upload_rank Acquiring = 0"
| "upload_rank ExtractingAudio = 1"
| "upload_rank Transcribing = 2"
| "upload_rank Publishing = 3"
| "upload_rank Synthesizing = 4"
| "upload_rank Persisting = 5"

definition in_order :: "(stage \<Rightarrow> nat) \<Rightarrow> call list \<Rightarrow> bool" where
  "in_order rank cs = sorted (map (\<lambda>c. rank (stage_of c)) cs)"

text \<open>
  A content row as scenario D of the specification expects it: the documented defaults
  in the three metadata columns.
\<close>

definition default_content_row :: "pyval \<Rightarrow> bool" where
  "default_content_row row =
     (subscript row ''title'' = Some (PStr ''Untitled'') \<and>
      subscript row ''category'' = Some (PStr ''General'') \<and>
      subscript row ''sub_category'' = Some PNone)"

text \<open>
  The question entries the synthesizer returned: the elements of the reply's
  \<^verbatim>\<open>questions\<close> array (none when the reply has no array there), as each entry point reads
  it (\<^verbatim>\<open>ai_data.get('questions', [])\<close> and \<^verbatim>\<open>questions_json['questions']\<close>).
\<close>

definition entries :: "pyval \<Rightarrow> pyval list" where
  "entries v = (case v of PList xs \<Rightarrow> xs | _ \<Rightarrow> [])"

definition api_drafts :: "env \<Rightarrow> pyval list" where
  "api_drafts e =
     (case chat_completion e of
        None \<Rightarrow> []
      | Some ai_data \<Rightarrow>
          (case dict_get ai_data ''questions'' (PList []) of
             None \<Rightarrow> []
           | Some v \<Rightarrow> entries v))"

definition admin_drafts :: "env \<Rightarrow> pyval list" where
  "admin_drafts e =
     (case chat_completion e of
        None \<Rightarrow> []
      | Some questions_json \<Rightarrow>
          (case subscript questions_json ''questions'' of
             None \<Rightarrow> []
           | Some v \<Rightarrow> entries v))"

text \<open>The rows a run appended to each table.\<close>

definition added_content :: "world \<Rightarrow> run \<Rightarrow> pyval list" where
  "added_content w r = drop (length (content_library w)) (content_library (final r))"

definition added_questions :: "world \<Rightarrow> run \<Rightarrow> pyval list" where
  "added_questions w r = drop (length (questions_table w)) (questions_table (final r))"

text \<open>
  What a run did to the two tables, seen from the tables \<open>cl\<close> and \<open>qt\<close> it started on: it
  appended rows only; the question rows are none, or one per draft, each built by
  \<open>row_of\<close>; and a run that ends \<open>Done\<close> appended exactly one content row and the
  question rows of all drafts.
\<close>

definition persisted ::
  "pyval list \<Rightarrow> pyval list \<Rightarrow> (pyval \<Rightarrow> pyval \<Rightarrow> pyval option) \<Rightarrow> pyval list \<Rightarrow> run \<Rightarrow> bool" where
  "persisted cl qt row_of drafts r =
     (\<exists>cs rows. content_library (final r) = cl @ cs \<and> questions_table (final r) = qt @ rows \<and>
        (rows = [] \<or> (\<exists>i. map (row_of i) drafts = map Some rows)) \<and>
        (outcome r = Done \<longrightarrow> length cs = 1 \<and> (\<exists>i. map (row_of i) drafts = map Some rows)))"

text \<open>
  Replies of the generative service for the scenarios: an entry with all four fields, an
  entry that has a question only, an entry whose stage is 7 and that offers two wrong
  options, and a reply with metadata around a list of entries.
\<close>

definition draft_full :: pyval where
  "draft_full =
     PDict [(''stage'', PInt 1), (''q'', PStr ''What pulls the apple down?''),
            (''correct'', PStr ''Gravity''),
            (''wrong'', PList [PStr ''Magnetism'', PStr ''Wind'', PStr ''Friction''])]"

definition draft_partial :: pyval where
  "draft_partial = PDict [(''q'', PStr ''Why?'')]"

definition draft_stage7 :: pyval where
  "draft_stage7 =
     PDict [(''stage'', PInt 7), (''q'', PStr ''What is inertia?''),
            (''correct'', PStr ''Resistance to change of motion''),
            (''wrong'', PList [PStr ''A force'', PStr ''A unit''])]"

definition reply_with :: "pyval list \<Rightarrow> pyval" where
  "reply_with qs =
     PDict [(''metadata'', PDict [(''title'', PStr ''Gravity 101''), (''speaker'', PStr ''Unknown''),
                                  (''category'', PStr ''Physics''),
                                  (''sub_category'', PStr ''Mechanics'')]),
            (''questions'', PList qs)]"

text \<open>
  A question row as the specification describes it: a stage from 0 to 4, and three wrong
  options or the empty list that \<^verbatim>\<open>run_pipeline\<close> substitutes for a missing field.
\<close>

definition spec_valid_question :: "pyval \<Rightarrow> bool" where
  "spec_valid_question row =
     ((case subscript row ''difficulty_phase'' of
         Some (PInt n) \<Rightarrow> 0 \<le> n \<and> n \<le> 4
       | _ \<Rightarrow> False) \<and>
      (case subscript row ''wrong_options'' of
         Some (PList xs) \<Rightarrow> length xs = 3 \<or> xs = []
       | _ \<Rightarrow> False))"

text \<open>The acknowledgement of \<^verbatim>\<open>capture_video\<close> is its acceptance response.\<close>

definition is_acceptance :: "response \<Rightarrow> bool" where
  "is_acceptance r = (status r = ''processing'')"

text \<open>The storage keys a run uploaded under, and the titles of the content rows it sent.\<close>

fun upload_keys :: "call list \<Rightarrow> string list" where
  "upload_keys [] = []"
| "upload_keys (Upload k p # cs) = k # upload_keys cs"
| "upload_keys (c # cs) = upload_keys cs"

fun inserted_titles :: "call list \<Rightarrow> pyval option list" where
  "inserted_titles [] = []"
| "inserted_titles (InsertContent row # cs) = subscript row ''title'' # inserted_titles cs"
| "inserted_titles (c # cs) = inserted_titles cs"

text \<open>The characters line 136 of api.py keeps.\<close>

definition allowed :: "char \<Rightarrow> bool" where
  "allowed c = (isalnum c \<or> c \<in> set '' _-'')"

text \<open>
  What a run of \<^verbatim>\<open>run_pipeline\<close> whose reply has no title did to the content table and the
  bucket, seen from the table \<open>cl\<close> and the bucket \<open>vs\<close> it started on: it appended content
  rows only, each with the title \<^verbatim>\<open>Untitled\<close>; it changed the bucket at the key
  \<^verbatim>\<open>Video.mp4\<close> at most; and a run that ends \<open>Done\<close> appended exactly one row and left
  the file \<open>video_path\<close> under that key.
\<close>

definition untitled_run :: "pyval list \<Rightarrow> (string \<rightharpoonup> string) \<Rightarrow> string \<Rightarrow> run \<Rightarrow> bool" where
  "untitled_run cl vs video_path r =
     (\<exists>rows. content_library (final r) = cl @ rows \<and>
        list_all (\<lambda>row. subscript row ''title'' = Some (PStr ''Untitled'')) rows \<and>
        (videos (final r))(''Video.mp4'' := None) = vs(''Video.mp4'' := None) \<and>
        (outcome r = Done \<longrightarrow>
           length rows = 1 \<and> videos (final r) ''Video.mp4'' = Some video_path))"

section \<open>Properties\<close>

lemmas api_defs = run_pipeline_def download_video_def api_extract_audio_def api_transcribe_def
  api_analyze_def api_upload_def api_filename_def safe_title_def api_save_db_def api_cleanup_def
  remove_if_exists_def api_question_row_def after_def stop_def Let_def

lemmas admin_defs = process_video_def admin_transcribe_def admin_upload_def admin_file_name_def
  admin_generate_questions_def admin_save_db_def admin_cleanup_def os_remove_def
  admin_question_row_def after_def stop_def Let_def

lemmas scen_defs = env_ok_def world0_def py_int_def draft_full_def draft_partial_def
  draft_stage7_def reply_with_def str_isalnum_def isalnum_def

lemma replace_char: "replace [a] [b] s = map (\<lambda>c. if c = a then b else c) s"
  by (induction s) auto

lemma temp_ne_audio: "n @ ''.mp4'' \<noteq> ''temp_audio.mp3''"
proof
  assume "n @ ''.mp4'' = ''temp_audio.mp3''"
  then have "last (n @ ''.mp4'') = last ''temp_audio.mp3''" by simp
  then show False by simp
qed

lemma those_eq_Some: "those xs = Some ys \<longleftrightarrow> xs = map Some ys"
  by (induction xs arbitrary: ys) (auto split: option.splits)

lemma api_question_row_PStr [simp]: "api_question_row i (PStr s) = None"
  by (simp add: api_question_row_def)

lemma admin_question_row_PStr [simp]: "admin_question_row i (PStr s) = None"
  by (simp add: admin_question_row_def)

text \<open>
  A loop over the questions value that built a row for every element walked a list: the
  characters of a string and the keys of a dictionary are strings, which have no fields.
\<close>

lemma api_rows_entries:
  assumes "py_iter qs = Some l" and "map (api_question_row i) l = map Some rows"
  shows "l = entries qs"
proof (cases qs)
  case (PStr s)
  with assms show ?thesis by (cases s; cases rows) (auto simp: entries_def)
next
  case (PDict kvs)
  with assms show ?thesis by (cases kvs; cases rows) (auto simp: entries_def)
qed (use assms in \<open>auto simp: entries_def\<close>)

lemma admin_rows_entries:
  assumes "py_iter qs = Some l" and "map (admin_question_row i) l = map Some rows"
  shows "l = entries qs"
proof (cases qs)
  case (PStr s)
  with assms show ?thesis by (cases s; cases rows) (auto simp: entries_def)
next
  case (PDict kvs)
  with assms show ?thesis by (cases kvs; cases rows) (auto simp: entries_def)
qed (use assms in \<open>auto simp: entries_def\<close>)

lemma falsy_entries: "\<not> truthy qs \<Longrightarrow> entries qs = []"
  by (cases qs) (auto simp: entries_def)

subsection \<open>What a run does to the tables, stage by stage\<close>

lemma persisted_after [simp]: "persisted cl qt f ds (after cs r) = persisted cl qt f ds r"
  by (simp add: persisted_def after_def)

lemma persisted_stop:
  "out \<noteq> Done \<Longrightarrow> content_library w = cl \<Longrightarrow> questions_table w = qt \<Longrightarrow>
   persisted cl qt f ds (stop out w)"
  by (simp add: persisted_def stop_def)

lemma api_save_db_persisted:
  "content_library w = cl \<Longrightarrow> questions_table w = qt \<Longrightarrow>
   persisted cl qt api_question_row (entries qs) (api_save_db e vp ap tt d meta qs pu w)"
  unfolding persisted_def
  by (auto simp: api_save_db_def api_cleanup_def remove_if_exists_def after_def stop_def Let_def
      those_eq_Some falsy_entries
      split: option.splits insert_reply.splits dest: api_rows_entries)

lemma api_upload_persisted:
  "content_library w = cl \<Longrightarrow> questions_table w = qt \<Longrightarrow>
   persisted cl qt api_question_row (entries qs) (api_upload e vp ap tt d meta qs w)"
  by (simp add: api_upload_def Let_def persisted_stop api_save_db_persisted split: option.splits)

lemma api_analyze_persisted:
  "content_library w = cl \<Longrightarrow> questions_table w = qt \<Longrightarrow>
   persisted cl qt api_question_row (api_drafts e) (api_analyze e vp ap tt d w)"
  by (simp add: api_analyze_def api_drafts_def persisted_stop api_upload_persisted
      split: option.splits)

lemma run_pipeline_persisted:
  "persisted (content_library w) (questions_table w) api_question_row (api_drafts e)
     (run_pipeline e url w)"
  by (simp add: run_pipeline_def api_extract_audio_def api_transcribe_def Let_def
      persisted_stop api_analyze_persisted split: option.splits prod.splits)

lemma admin_save_db_persisted:
  "content_library w = cl \<Longrightarrow> questions_table w = qt \<Longrightarrow>
   chat_completion e = Some qj \<Longrightarrow>
   persisted cl qt admin_question_row (admin_drafts e)
     (admin_save_db e vp ap t c s tt d pu qj w)"
  unfolding persisted_def
  by (auto simp: admin_save_db_def admin_cleanup_def os_remove_def after_def stop_def Let_def
      those_eq_Some admin_drafts_def
      split: option.splits insert_reply.splits dest: admin_rows_entries)

lemma process_video_persisted:
  "persisted (content_library w) (questions_table w) admin_question_row (admin_drafts e)
     (process_video e f t c s w)"
  by (simp add: process_video_def admin_transcribe_def admin_upload_def
      admin_generate_questions_def Let_def
      persisted_stop admin_save_db_persisted split: option.splits)

subsection \<open>The guard on the transcript's length\<close>

text \<open>
  In \<^verbatim>\<open>run_pipeline\<close> a transcript of fewer than 20 characters ends the run before the
  upload and before both inserts: the bucket and the tables are as they were, and no
  request of the publishing or persisting stage was made.
\<close>

lemma run_pipeline_short_transcript_aborts:
  assumes "transcriptions_create e = Some t" and "length t < 20"
  shows "videos (final (run_pipeline e url w)) = videos w \<and>
         content_library (final (run_pipeline e url w)) = content_library w \<and>
         questions_table (final (run_pipeline e url w)) = questions_table w \<and>
         list_all (\<lambda>c. stage_of c \<noteq> Publishing \<and> stage_of c \<noteq> Persisting)
           (calls (run_pipeline e url w))"
  using assms by (auto simp: api_defs split: option.splits prod.splits)

text \<open>
  Claim C1: a run whose transcript has fewer than 20 characters creates no durable
  entity, in both entry points. \<^verbatim>\<open>process_video\<close> has no such guard: on the upload of a
  clip whose transcript is \<^verbatim>\<open>Hello\<close> (5 characters) it runs to its end, stores the video
  under \<^verbatim>\<open>My_Title.mp4\<close> and inserts a content row.
\<close>

theorem process_video_short_transcript_persists:
  "outcome (process_video (env_ok\<lparr>transcriptions_create := Some ''Hello''\<rparr>)
              ''bytes'' ''My Title'' ''Other'' [] world0) = Done \<and>
   videos (final (process_video (env_ok\<lparr>transcriptions_create := Some ''Hello''\<rparr>)
              ''bytes'' ''My Title'' ''Other'' [] world0)) ''My_Title.mp4''
     = Some ''/tmp/tmpq1.mp4'' \<and>
   content_library (final (process_video (env_ok\<lparr>transcriptions_create := Some ''Hello''\<rparr>)
              ''bytes'' ''My Title'' ''Other'' [] world0)) =
     [PDict [(''video_url'', PStr ''https://cdn.example/videos/x.mp4''),
             (''title'', PStr ''My Title''), (''transcript_text'', PStr ''Hello''),
             (''category'', PStr ''Other''), (''duration_seconds'', PInt 30)]]"
  by (simp add: admin_defs env_ok_def world0_def py_int_def)

subsection \<open>The guard on the clip's duration\<close>

text \<open>
  In \<^verbatim>\<open>run_pipeline\<close> a clip shorter than 5 seconds ends the run inside the audio
  extraction: every request made belongs to the first two stages.
\<close>

lemma run_pipeline_short_clip_aborts:
  assumes "clip_duration e = Some d" and "d < 5"
  shows "list_all (\<lambda>c. stage_of c = Acquiring \<or> stage_of c = ExtractingAudio)
           (calls (run_pipeline e url w)) \<and>
         outcome (run_pipeline e url w) \<in> {EmptyUrl, Aborted Acquiring, Aborted ExtractingAudio}"
  using assms by (auto simp: api_defs split: option.splits prod.splits)

text \<open>
  Claim C2: a run whose clip lasts less than 5 seconds aborts before the transcription
  request, in both entry points. \<^verbatim>\<open>process_video\<close> never compares the duration: on a clip
  of 3 seconds it sends the transcription request and every later one.
\<close>

theorem process_video_short_clip_transcribes:
  "calls (process_video (env_ok\<lparr>clip_duration := Some 3\<rparr>)
            ''bytes'' ''My Title'' ''Other'' [] world0) =
     [WriteTemp ''/tmp/tmpq1.mp4'', OpenClip ''/tmp/tmpq1.mp4'', WriteAudio ''temp_audio.mp3'',
      Transcribe ''temp_audio.mp3'',
      Upload ''My_Title.mp4'' ''/tmp/tmpq1.mp4'', GetPublicUrl ''My_Title.mp4'',
      ChatCompletion
        ''This is a valid transcript about gravity and motion in classical mechanics.'',
      InsertContent (PDict [(''video_url'', PStr ''https://cdn.example/videos/x.mp4''),
        (''title'', PStr ''My Title''),
        (''transcript_text'',
         PStr ''This is a valid transcript about gravity and motion in classical mechanics.''),
        (''category'', PStr ''Other''), (''duration_seconds'', PInt 3)]),
      InsertQuestions (PList [])]"
  by (simp add: admin_defs env_ok_def world0_def py_int_def)

subsection \<open>The transient files\<close>

text \<open>
  Claim C3: on every exit path the temporary video file and the audio file are deleted.
  \<^verbatim>\<open>run_pipeline\<close> deletes them in its last lines only; the \<^verbatim>\<open>return\<close> of line 65 (a
  clip of 3 seconds) leaves the downloaded file on the disk.
\<close>

theorem run_pipeline_short_clip_leaves_video_file:
  "outcome (run_pipeline (env_ok\<lparr>clip_duration := Some 3\<rparr>) ''https://example.org/v'' world0)
     = Aborted ExtractingAudio \<and>
   files (final (run_pipeline (env_ok\<lparr>clip_duration := Some 3\<rparr>)
                   ''https://example.org/v'' world0))
     = {''temp_abc.mp4''}"
  by (simp add: api_defs env_ok_def world0_def)

text \<open>
  The runs that reach the last lines do delete both files: in \<^verbatim>\<open>run_pipeline\<close> those that
  end \<open>Done\<close> and those whose database step failed, in \<^verbatim>\<open>process_video\<close> those that end
  \<open>Done\<close>.
\<close>

lemma run_pipeline_end_removes_files:
  assumes "ydl_extract_info e url = Some (video_path, t)"
  shows "outcome (run_pipeline e url w) = Done \<or> outcome (run_pipeline e url w) = Aborted Persisting
     \<longrightarrow> files (final (run_pipeline e url w)) =
          files w - {video_path, replace ''.mp4'' ''.mp3'' video_path}"
  using assms
  by (auto simp: api_defs split: option.splits insert_reply.splits)

lemma process_video_end_removes_files:
  "outcome (process_video e f t c s w) = Done
     \<longrightarrow> files (final (process_video e f t c s w)) =
          files w - {tempfile_name e @ ''.mp4'', ''temp_audio.mp3''}"
  using temp_ne_audio [of "tempfile_name e"]
  by (auto simp: admin_defs split: option.splits insert_reply.splits)


subsection \<open>The order of the stages\<close>

text \<open>
  Claim C4, as amended: \<^verbatim>\<open>run_pipeline\<close> makes its requests in the order Acquiring,
  ExtractingAudio, Transcribing, Synthesizing, Publishing, Persisting, so the generative
  request is over before the upload starts; \<^verbatim>\<open>process_video\<close> makes them in the order
  Acquiring, ExtractingAudio, Transcribing, Publishing, Synthesizing, Persisting. Neither
  enters a stage twice.
\<close>

theorem stages_in_order:
  "in_order linear_rank (calls (run_pipeline e url w)) \<and>
   in_order upload_rank (calls (process_video e' f t c s w'))"
proof
  show "in_order linear_rank (calls (run_pipeline e url w))"
    by (simp add: api_defs in_order_def split: option.splits prod.splits insert_reply.splits)
  show "in_order upload_rank (calls (process_video e' f t c s w'))"
    by (simp add: admin_defs in_order_def split: option.splits prod.splits insert_reply.splits)
qed

text \<open>A complete run of each entry point, with the stages of its requests.\<close>

theorem stages_in_order_witness:
  "in_order linear_rank (calls (run_pipeline env_ok ''https://example.org/v'' world0)) \<and>
   map stage_of (calls (run_pipeline env_ok ''https://example.org/v'' world0)) =
     [Acquiring, ExtractingAudio, ExtractingAudio, Transcribing, Synthesizing,
      Publishing, Publishing, Persisting] \<and>
   in_order upload_rank (calls (process_video env_ok ''bytes'' ''My Title'' ''Other'' [] world0)) \<and>
   map stage_of (calls (process_video env_ok ''bytes'' ''My Title'' ''Other'' [] world0)) =
     [Acquiring, ExtractingAudio, ExtractingAudio, Transcribing, Publishing, Publishing,
      Synthesizing, Persisting, Persisting]"
  using stages_in_order [of env_ok "''https://example.org/v''" world0 env_ok "''bytes''"
      "''My Title''" "''Other''" "[]" world0]
  by (simp add: api_defs admin_defs scen_defs)

text \<open>
  The claim as the specification states it fails on \<^verbatim>\<open>process_video\<close>: its upload
  precedes its generative request.
\<close>

theorem process_video_uploads_before_synthesis:
  "\<not> in_order linear_rank
       (calls (process_video env_ok ''bytes'' ''My Title'' ''Other'' [] world0))"
  by (simp add: admin_defs in_order_def scen_defs)

subsection \<open>Missing metadata\<close>

lemma safe_title_default:
  "map_of m ''title'' = None \<Longrightarrow> safe_title (PDict m) = Some ''Video''"
  by (simp add: safe_title_def str_isalnum_def isalnum_def)

lemma run_pipeline_defaults:
  assumes "url \<noteq> []" and "ydl_extract_info e url = Some (video_path, t)"
    and "clip_duration e = Some d" and "5 \<le> d" and "write_audiofile e"
    and "transcriptions_create e = Some tt" and "20 \<le> length tt"
    and "chat_completion e = Some ai"
    and "dict_get ai ''metadata'' (PDict []) = Some (PDict m)"
    and "map_of m ''title'' = None" and "map_of m ''category'' = None"
    and "map_of m ''sub_category'' = None"
    and "dict_get ai ''questions'' (PList []) = Some (PList [])"
    and "storage_upload e" and "get_public_url e = Some u" and "content_insert e = ReplyId i"
  shows "outcome (run_pipeline e url w) = Done \<and>
         content_library (final (run_pipeline e url w)) = content_library w @
           [PDict [(''video_url'', PStr u), (''title'', PStr ''Untitled''),
                   (''transcript_text'', PStr tt), (''category'', PStr ''General''),
                   (''sub_category'', PNone), (''duration_seconds'', PInt (py_int d))]] \<and>
         questions_table (final (run_pipeline e url w)) = questions_table w"
  using assms
  by (simp add: run_pipeline_def download_video_def api_extract_audio_def api_transcribe_def
      api_analyze_def api_upload_def safe_title_default api_save_db_def api_cleanup_def
      remove_if_exists_def after_def stop_def Let_def)

lemma process_video_operator_fields:
  assumes "clip_duration e = Some d" and "write_audiofile e"
    and "transcriptions_create e = Some tt"
    and "storage_upload e" and "get_public_url e = Some u"
    and "chat_completion e = Some qj" and "subscript qj ''questions'' = Some (PList [])"
    and "content_insert e = ReplyId i" and "questions_insert e"
  shows "outcome (process_video e f title' category' sub_category' w) = Done \<and>
         content_library (final (process_video e f title' category' sub_category' w)) =
           content_library w @
           [PDict [(''video_url'', PStr u), (''title'', PStr title'),
                   (''transcript_text'', PStr tt),
                   (''category'',
                    PStr (if sub_category' \<noteq> [] then category' @ '' > '' @ sub_category'
                          else category')),
                   (''duration_seconds'', PInt (py_int d))]] \<and>
         questions_table (final (process_video e f title' category' sub_category' w)) =
           questions_table w"
  using assms temp_ne_audio [of "tempfile_name e"]
  by (simp add: admin_defs)

text \<open>
  Claim C5, as amended. In \<^verbatim>\<open>run_pipeline\<close>, when every other stage succeeds and the
  reply is an object whose metadata (absent, or an object) has no title, category and
  sub-category and whose questions array is absent or empty, the run ends \<open>Done\<close> with
  exactly one new content row, holding \<^verbatim>\<open>Untitled\<close>, \<^verbatim>\<open>General\<close> and a null sub-category,
  and no new question row. In \<^verbatim>\<open>process_video\<close>, when every stage succeeds and the
  questions array is empty, the one new content row holds the operator's title and
  category (joined with the sub-category when one was given), and no question row is
  added.
\<close>

theorem missing_metadata_defaults:
  "(url \<noteq> [] \<and> ydl_extract_info e url = Some (video_path, src) \<and>
    clip_duration e = Some d \<and> 5 \<le> d \<and> write_audiofile e \<and>
    transcriptions_create e = Some tt \<and> 20 \<le> length tt \<and>
    chat_completion e = Some ai \<and>
    dict_get ai ''metadata'' (PDict []) = Some (PDict m) \<and>
    map_of m ''title'' = None \<and> map_of m ''category'' = None \<and>
    map_of m ''sub_category'' = None \<and>
    dict_get ai ''questions'' (PList []) = Some (PList []) \<and>
    storage_upload e \<and> get_public_url e = Some u \<and> content_insert e = ReplyId i
    \<longrightarrow>
    outcome (run_pipeline e url w) = Done \<and>
    content_library (final (run_pipeline e url w)) = content_library w @
      [PDict [(''video_url'', PStr u), (''title'', PStr ''Untitled''),
              (''transcript_text'', PStr tt), (''category'', PStr ''General''),
              (''sub_category'', PNone), (''duration_seconds'', PInt (py_int d))]] \<and>
    questions_table (final (run_pipeline e url w)) = questions_table w) \<and>
   (clip_duration e' = Some d' \<and> write_audiofile e' \<and>
    transcriptions_create e' = Some tt' \<and>
    storage_upload e' \<and> get_public_url e' = Some u' \<and>
    chat_completion e' = Some qj \<and> subscript qj ''questions'' = Some (PList []) \<and>
    content_insert e' = ReplyId i' \<and> questions_insert e'
    \<longrightarrow>
    outcome (process_video e' f title' category' sub_category' w') = Done \<and>
    content_library (final (process_video e' f title' category' sub_category' w')) =
      content_library w' @
      [PDict [(''video_url'', PStr u'), (''title'', PStr title'),
              (''transcript_text'', PStr tt'),
              (''category'',
               PStr (if sub_category' \<noteq> [] then category' @ '' > '' @ sub_category'
                     else category')),
              (''duration_seconds'', PInt (py_int d'))]] \<and>
    questions_table (final (process_video e' f title' category' sub_category' w')) =
      questions_table w')"
  using run_pipeline_defaults [of url e video_path src d tt ai m u i w]
    process_video_operator_fields [of e' d' tt' u' qj i' f title' category' sub_category' w']
  by blast

text \<open>
  The claim as stated fails on \<^verbatim>\<open>process_video\<close>: with the reply of scenario D its
  content row holds the title and the category the operator typed.
\<close>

theorem process_video_keeps_operator_title:
  "chat_completion env_ok = Some (PDict [(''questions'', PList [])]) \<and>
   outcome (process_video env_ok ''bytes'' ''My Title'' ''Other'' [] world0) = Done \<and>
   \<not> list_all default_content_row
       (content_library (final (process_video env_ok ''bytes'' ''My Title'' ''Other'' [] world0)))"
  by (simp add: admin_defs scen_defs default_content_row_def)

text \<open>Scenario D in both entry points.\<close>

theorem missing_metadata_defaults_witness:
  "chat_completion env_ok = Some (PDict [(''questions'', PList [])]) \<and>
   outcome (run_pipeline env_ok ''https://example.org/v'' world0) = Done \<and>
   content_library (final (run_pipeline env_ok ''https://example.org/v'' world0)) =
     [PDict [(''video_url'', PStr ''https://cdn.example/videos/x.mp4''),
             (''title'', PStr ''Untitled''),
             (''transcript_text'',
              PStr ''This is a valid transcript about gravity and motion in classical mechanics.''),
             (''category'', PStr ''General''), (''sub_category'', PNone),
             (''duration_seconds'', PInt 30)]] \<and>
   questions_table (final (run_pipeline env_ok ''https://example.org/v'' world0)) = [] \<and>
   outcome (process_video env_ok ''bytes'' ''My Title'' ''Other'' ''Tests'' world0) = Done \<and>
   content_library (final (process_video env_ok ''bytes'' ''My Title'' ''Other'' ''Tests'' world0)) =
     [PDict [(''video_url'', PStr ''https://cdn.example/videos/x.mp4''),
             (''title'', PStr ''My Title''),
             (''transcript_text'',
              PStr ''This is a valid transcript about gravity and motion in classical mechanics.''),
             (''category'', PStr ''Other > Tests''),
             (''duration_seconds'', PInt 30)]] \<and>
   questions_table (final (process_video env_ok ''bytes'' ''My Title'' ''Other'' ''Tests'' world0)) = []"
  using missing_metadata_defaults [where e = env_ok and url = "''https://example.org/v''"
      and video_path = "''temp_abc.mp4''" and src = "Some ''Clip''" and d = 30
      and tt = "''This is a valid transcript about gravity and motion in classical mechanics.''"
      and ai = "PDict [(''questions'', PList [])]" and m = "[]"
      and u = "''https://cdn.example/videos/x.mp4''" and i = "PInt 1" and w = world0
      and e' = env_ok and d' = 30
      and tt' = "''This is a valid transcript about gravity and motion in classical mechanics.''"
      and u' = "''https://cdn.example/videos/x.mp4''"
      and qj = "PDict [(''questions'', PList [])]" and i' = "PInt 1" and f = "''bytes''"
      and title' = "''My Title''" and category' = "''Other''" and sub_category' = "''Tests''"
      and w' = world0]
  by (simp add: scen_defs)

subsection \<open>The rows of a successful run\<close>

lemma map_Some_list_all2:
  "map f xs = map Some ys \<Longrightarrow> list_all2 (\<lambda>x y. f x = Some y) xs ys"
  by (induction xs arbitrary: ys) auto

lemma api_question_row_copies:
  "api_question_row i q = Some row \<Longrightarrow>
   subscript row ''difficulty_phase'' = dict_get q ''stage'' (PInt 0) \<and>
   subscript row ''wrong_options'' = dict_get q ''wrong'' (PList [])"
  by (cases q) (auto simp: api_question_row_def)

lemma admin_question_row_copies:
  "admin_question_row i q = Some row \<Longrightarrow>
   subscript row ''difficulty_phase'' = subscript q ''stage'' \<and>
   subscript row ''wrong_options'' = subscript q ''wrong''"
  by (cases q) (auto simp: admin_question_row_def split: option.splits)

lemma api_question_row_fills:
  "api_question_row i (PDict kvs) =
     Some (PDict [(''video_id'', i),
       (''difficulty_phase'', case map_of kvs ''stage'' of None \<Rightarrow> PInt 0 | Some v \<Rightarrow> v),
       (''question_text'', case map_of kvs ''q'' of None \<Rightarrow> PStr ''Error'' | Some v \<Rightarrow> v),
       (''correct_answer'', case map_of kvs ''correct'' of None \<Rightarrow> PStr ''Error'' | Some v \<Rightarrow> v),
       (''wrong_options'', case map_of kvs ''wrong'' of None \<Rightarrow> PList [] | Some v \<Rightarrow> v)])"
  by (simp add: api_question_row_def)

lemma persisted_counts:
  assumes "persisted (content_library w) (questions_table w) f ds r" and "outcome r = Done"
  shows "content_library (final r) = content_library w @ added_content w r \<and>
         length (added_content w r) = 1 \<and>
         questions_table (final r) = questions_table w @ added_questions w r \<and>
         length (added_questions w r) = length ds \<and>
         (\<exists>i. map (f i) ds = map Some (added_questions w r))"
proof -
  from assms obtain cs rows i where
    c: "content_library (final r) = content_library w @ cs" and
    q: "questions_table (final r) = questions_table w @ rows" and
    l: "length cs = 1" and m: "map (f i) ds = map Some rows"
    unfolding persisted_def by blast
  from m have "length ds = length rows" by (metis length_map)
  with c q l m show ?thesis by (auto simp: added_content_def added_questions_def)
qed

text \<open>
  A run that ends \<open>Done\<close>, in either entry point, appended exactly one content row, and
  its question rows are the rows of the synthesizer's entries, one per entry and in
  their order (none when there is no entry). In \<^verbatim>\<open>run_pipeline\<close> the row of an entry takes
  0, \<^verbatim>\<open>Error\<close>, \<^verbatim>\<open>Error\<close> and the empty list for the fields the entry lacks.
\<close>

theorem successful_run_counts:
  "(outcome (run_pipeline e url w) = Done \<longrightarrow>
      content_library (final (run_pipeline e url w)) =
        content_library w @ added_content w (run_pipeline e url w) \<and>
      length (added_content w (run_pipeline e url w)) = 1 \<and>
      questions_table (final (run_pipeline e url w)) =
        questions_table w @ added_questions w (run_pipeline e url w) \<and>
      length (added_questions w (run_pipeline e url w)) = length (api_drafts e) \<and>
      (\<exists>i. map (api_question_row i) (api_drafts e) =
            map Some (added_questions w (run_pipeline e url w)))) \<and>
   (outcome (process_video e' f t c s w') = Done \<longrightarrow>
      content_library (final (process_video e' f t c s w')) =
        content_library w' @ added_content w' (process_video e' f t c s w') \<and>
      length (added_content w' (process_video e' f t c s w')) = 1 \<and>
      questions_table (final (process_video e' f t c s w')) =
        questions_table w' @ added_questions w' (process_video e' f t c s w') \<and>
      length (added_questions w' (process_video e' f t c s w')) = length (admin_drafts e') \<and>
      (\<exists>i. map (admin_question_row i) (admin_drafts e') =
            map Some (added_questions w' (process_video e' f t c s w')))) \<and>
   api_question_row new_id (PDict kvs) =
     Some (PDict [(''video_id'', new_id),
       (''difficulty_phase'', case map_of kvs ''stage'' of None \<Rightarrow> PInt 0 | Some v \<Rightarrow> v),
       (''question_text'', case map_of kvs ''q'' of None \<Rightarrow> PStr ''Error'' | Some v \<Rightarrow> v),
       (''correct_answer'', case map_of kvs ''correct'' of None \<Rightarrow> PStr ''Error'' | Some v \<Rightarrow> v),
       (''wrong_options'', case map_of kvs ''wrong'' of None \<Rightarrow> PList [] | Some v \<Rightarrow> v)])"
  using persisted_counts [OF run_pipeline_persisted, of e url w]
    persisted_counts [OF process_video_persisted, of e' f t c s w']
    api_question_row_fills [of new_id kvs]
  by blast

text \<open>
  Two runs with entries: \<^verbatim>\<open>run_pipeline\<close> on a full and a partial entry, \<^verbatim>\<open>process_video\<close>
  on a full one.
\<close>

lemma run_two_drafts:
  "outcome (run_pipeline (env_ok\<lparr>chat_completion := Some (reply_with [draft_full, draft_partial])\<rparr>)
      ''https://example.org/v'' world0) = Done \<and>
   api_drafts (env_ok\<lparr>chat_completion := Some (reply_with [draft_full, draft_partial])\<rparr>) =
     [draft_full, draft_partial] \<and>
   questions_table (final (run_pipeline
      (env_ok\<lparr>chat_completion := Some (reply_with [draft_full, draft_partial])\<rparr>)
      ''https://example.org/v'' world0)) =
     [PDict [(''video_id'', PInt 1), (''difficulty_phase'', PInt 1),
             (''question_text'', PStr ''What pulls the apple down?''),
             (''correct_answer'', PStr ''Gravity''),
             (''wrong_options'', PList [PStr ''Magnetism'', PStr ''Wind'', PStr ''Friction''])],
      PDict [(''video_id'', PInt 1), (''difficulty_phase'', PInt 0),
             (''question_text'', PStr ''Why?''), (''correct_answer'', PStr ''Error''),
             (''wrong_options'', PList [])]]"
  by (simp add: api_defs scen_defs api_drafts_def entries_def)

lemma upload_one_draft:
  "outcome (process_video (env_ok\<lparr>chat_completion := Some (reply_with [draft_full])\<rparr>)
      ''bytes'' ''My Title'' ''Other'' [] world0) = Done \<and>
   admin_drafts (env_ok\<lparr>chat_completion := Some (reply_with [draft_full])\<rparr>) = [draft_full] \<and>
   questions_table (final (process_video
      (env_ok\<lparr>chat_completion := Some (reply_with [draft_full])\<rparr>)
      ''bytes'' ''My Title'' ''Other'' [] world0)) =
     [PDict [(''video_id'', PInt 1), (''difficulty_phase'', PInt 1),
             (''question_text'', PStr ''What pulls the apple down?''),
             (''correct_answer'', PStr ''Gravity''),
             (''wrong_options'', PList [PStr ''Magnetism'', PStr ''Wind'', PStr ''Friction''])]]"
  by (simp add: admin_defs scen_defs admin_drafts_def entries_def)

theorem successful_run_counts_witness:
  "outcome (run_pipeline (env_ok\<lparr>chat_completion := Some (reply_with [draft_full, draft_partial])\<rparr>)
      ''https://example.org/v'' world0) = Done \<and>
   length (added_content world0 (run_pipeline
      (env_ok\<lparr>chat_completion := Some (reply_with [draft_full, draft_partial])\<rparr>)
      ''https://example.org/v'' world0)) = 1 \<and>
   length (added_questions world0 (run_pipeline
      (env_ok\<lparr>chat_completion := Some (reply_with [draft_full, draft_partial])\<rparr>)
      ''https://example.org/v'' world0)) = 2 \<and>
   outcome (process_video (env_ok\<lparr>chat_completion := Some (reply_with [draft_full])\<rparr>)
      ''bytes'' ''My Title'' ''Other'' [] world0) = Done \<and>
   length (added_content world0 (process_video
      (env_ok\<lparr>chat_completion := Some (reply_with [draft_full])\<rparr>)
      ''bytes'' ''My Title'' ''Other'' [] world0)) = 1 \<and>
   length (added_questions world0 (process_video
      (env_ok\<lparr>chat_completion := Some (reply_with [draft_full])\<rparr>)
      ''bytes'' ''My Title'' ''Other'' [] world0)) = 1"
  using successful_run_counts
      [where e = "env_ok\<lparr>chat_completion := Some (reply_with [draft_full, draft_partial])\<rparr>"
         and url = "''https://example.org/v''" and w = world0
         and e' = "env_ok\<lparr>chat_completion := Some (reply_with [draft_full])\<rparr>"
         and f = "''bytes''" and t = "''My Title''" and c = "''Other''" and s = "[]"
         and w' = world0]
    run_two_drafts upload_one_draft
  by simp

text \<open>
  Claim C6: in both entry points the number of question rows equals the number of
  entries the synthesizer returned, an entry with missing fields being filled with the
  error sentinel rather than dropped. \<^verbatim>\<open>process_video\<close> reads every field with
  \<^verbatim>\<open>item[...]\<close> (lines 134 to 137): on a reply with a full entry and an entry that has
  a question only it inserts the content row, raises KeyError and inserts none of the
  two questions, where \<^verbatim>\<open>run_pipeline\<close> (lines 178 to 181) builds the row of the partial
  entry from 0, \<^verbatim>\<open>Error\<close>, \<^verbatim>\<open>Error\<close> and the empty list.
\<close>

theorem process_video_partial_entry_raises:
  "admin_drafts (env_ok\<lparr>chat_completion := Some (reply_with [draft_full, draft_partial])\<rparr>) =
     [draft_full, draft_partial] \<and>
   outcome (process_video
      (env_ok\<lparr>chat_completion := Some (reply_with [draft_full, draft_partial])\<rparr>)
      ''bytes'' ''My Title'' ''Other'' [] world0) = Raised Persisting \<and>
   length (content_library (final (process_video
      (env_ok\<lparr>chat_completion := Some (reply_with [draft_full, draft_partial])\<rparr>)
      ''bytes'' ''My Title'' ''Other'' [] world0))) = 1 \<and>
   questions_table (final (process_video
      (env_ok\<lparr>chat_completion := Some (reply_with [draft_full, draft_partial])\<rparr>)
      ''bytes'' ''My Title'' ''Other'' [] world0)) = [] \<and>
   admin_question_row (PInt 1) draft_partial = None \<and>
   api_question_row (PInt 1) draft_partial =
     Some (PDict [(''video_id'', PInt 1), (''difficulty_phase'', PInt 0),
                  (''question_text'', PStr ''Why?''), (''correct_answer'', PStr ''Error''),
                  (''wrong_options'', PList [])])"
  by (simp add: admin_defs api_question_row_def scen_defs admin_drafts_def entries_def)

subsection \<open>The values of the question rows\<close>

lemma persisted_rows:
  assumes "persisted (content_library w) (questions_table w) f ds r"
  shows "questions_table (final r) = questions_table w @ added_questions w r \<and>
         (added_questions w r = [] \<or>
          list_all2 (\<lambda>q row. \<exists>i. f i q = Some row) ds (added_questions w r))"
proof -
  from assms obtain cs rows where
    q: "questions_table (final r) = questions_table w @ rows" and
    m: "rows = [] \<or> (\<exists>i. map (f i) ds = map Some rows)"
    unfolding persisted_def by blast
  have a: "added_questions w r = rows" using q by (simp add: added_questions_def)
  from m show ?thesis
  proof
    assume "rows = []" with q a show ?thesis by simp
  next
    assume "\<exists>i. map (f i) ds = map Some rows"
    then obtain i where "map (f i) ds = map Some rows" ..
    then have "list_all2 (\<lambda>x y. f i x = Some y) ds rows" by (rule map_Some_list_all2)
    then have "list_all2 (\<lambda>q row. \<exists>i. f i q = Some row) ds rows"
      by (rule list_all2_mono) blast
    with q a show ?thesis by simp
  qed
qed

text \<open>
  Claim C7, as amended: whatever the outcome, the question rows a run appends are none
  or one per entry of the synthesizer, and each row carries the entry's stage and wrong
  options unchanged (in \<^verbatim>\<open>run_pipeline\<close> 0 and the empty list when the entry lacks the
  field). Neither entry point compares the stage with a range or counts the options.
\<close>

theorem questions_persisted_as_returned:
  "questions_table (final (run_pipeline e url w)) =
     questions_table w @ added_questions w (run_pipeline e url w) \<and>
   (added_questions w (run_pipeline e url w) = [] \<or>
    list_all2 (\<lambda>q row. subscript row ''difficulty_phase'' = dict_get q ''stage'' (PInt 0) \<and>
                       subscript row ''wrong_options'' = dict_get q ''wrong'' (PList []))
      (api_drafts e) (added_questions w (run_pipeline e url w))) \<and>
   questions_table (final (process_video e' f t c s w')) =
     questions_table w' @ added_questions w' (process_video e' f t c s w') \<and>
   (added_questions w' (process_video e' f t c s w') = [] \<or>
    list_all2 (\<lambda>q row. subscript row ''difficulty_phase'' = subscript q ''stage'' \<and>
                       subscript row ''wrong_options'' = subscript q ''wrong'')
      (admin_drafts e') (added_questions w' (process_video e' f t c s w')))"
proof -
  have 1: "list_all2 (\<lambda>q row. \<exists>i. api_question_row i q = Some row) xs ys \<Longrightarrow>
    list_all2 (\<lambda>q row. subscript row ''difficulty_phase'' = dict_get q ''stage'' (PInt 0) \<and>
                       subscript row ''wrong_options'' = dict_get q ''wrong'' (PList [])) xs ys"
    for xs ys
    by (erule list_all2_mono) (blast dest: api_question_row_copies)
  have 2: "list_all2 (\<lambda>q row. \<exists>i. admin_question_row i q = Some row) xs ys \<Longrightarrow>
    list_all2 (\<lambda>q row. subscript row ''difficulty_phase'' = subscript q ''stage'' \<and>
                       subscript row ''wrong_options'' = subscript q ''wrong'') xs ys"
    for xs ys
    by (erule list_all2_mono) (blast dest: admin_question_row_copies)
  show ?thesis
    using persisted_rows [OF run_pipeline_persisted, of e url w]
      persisted_rows [OF process_video_persisted, of e' f t c s w'] 1 2
    by blast
qed

text \<open>
  The claim as stated fails: \<^verbatim>\<open>run_pipeline\<close> inserts an entry whose stage is 7 and that
  has two wrong options as it came.
\<close>

theorem run_pipeline_inserts_stage_7:
  "questions_table (final (run_pipeline
      (env_ok\<lparr>chat_completion := Some (reply_with [draft_stage7])\<rparr>)
      ''https://example.org/v'' world0)) =
     [PDict [(''video_id'', PInt 1), (''difficulty_phase'', PInt 7),
             (''question_text'', PStr ''What is inertia?''),
             (''correct_answer'', PStr ''Resistance to change of motion''),
             (''wrong_options'', PList [PStr ''A force'', PStr ''A unit''])]] \<and>
   \<not> list_all spec_valid_question
       (questions_table (final (run_pipeline
          (env_ok\<lparr>chat_completion := Some (reply_with [draft_stage7])\<rparr>)
          ''https://example.org/v'' world0)))"
  by (simp add: api_defs scen_defs spec_valid_question_def)

text \<open>The rows of the two runs with entries carry the entries' values.\<close>

theorem questions_persisted_as_returned_witness:
  "added_questions world0 (run_pipeline
      (env_ok\<lparr>chat_completion := Some (reply_with [draft_full, draft_partial])\<rparr>)
      ''https://example.org/v'' world0) \<noteq> [] \<and>
   list_all2 (\<lambda>q row. subscript row ''difficulty_phase'' = dict_get q ''stage'' (PInt 0) \<and>
                      subscript row ''wrong_options'' = dict_get q ''wrong'' (PList []))
     [draft_full, draft_partial]
     (added_questions world0 (run_pipeline
        (env_ok\<lparr>chat_completion := Some (reply_with [draft_full, draft_partial])\<rparr>)
        ''https://example.org/v'' world0)) \<and>
   added_questions world0 (process_video
      (env_ok\<lparr>chat_completion := Some (reply_with [draft_full])\<rparr>)
      ''bytes'' ''My Title'' ''Other'' [] world0) \<noteq> [] \<and>
   list_all2 (\<lambda>q row. subscript row ''difficulty_phase'' = subscript q ''stage'' \<and>
                      subscript row ''wrong_options'' = subscript q ''wrong'')
     [draft_full]
     (added_questions world0 (process_video
        (env_ok\<lparr>chat_completion := Some (reply_with [draft_full])\<rparr>)
        ''bytes'' ''My Title'' ''Other'' [] world0))"
proof -
  have a: "added_questions world0 (run_pipeline
      (env_ok\<lparr>chat_completion := Some (reply_with [draft_full, draft_partial])\<rparr>)
      ''https://example.org/v'' world0) \<noteq> []"
    using run_two_drafts by (simp add: added_questions_def world0_def)
  have b: "added_questions world0 (process_video
      (env_ok\<lparr>chat_completion := Some (reply_with [draft_full])\<rparr>)
      ''bytes'' ''My Title'' ''Other'' [] world0) \<noteq> []"
    using upload_one_draft by (simp add: added_questions_def world0_def)
  show ?thesis
    using questions_persisted_as_returned
      [where e = "env_ok\<lparr>chat_completion := Some (reply_with [draft_full, draft_partial])\<rparr>"
         and url = "''https://example.org/v''" and w = world0
         and e' = "env_ok\<lparr>chat_completion := Some (reply_with [draft_full])\<rparr>"
         and f = "''bytes''" and t = "''My Title''" and c = "''Other''" and s = "[]"
         and w' = world0]
      a b run_two_drafts upload_one_draft
    by simp
qed

subsection \<open>The storage key\<close>

text \<open>
  In \<^verbatim>\<open>run_pipeline\<close> the key of a title that is a string keeps the allowed characters,
  turns spaces into underscores and appends \<^verbatim>\<open>.mp4\<close>: it consists of alphanumeric
  characters, underscores and hyphens, and deriving a key from that stem again changes
  nothing. In \<^verbatim>\<open>process_video\<close> the key is the title with its spaces replaced, every
  other character kept.
\<close>

lemma join_kept_chars: "join_kept (map (\<lambda>c. PStr [c]) s) = Some (filter allowed s)"
  by (induction s) (auto simp: str_isalnum_def allowed_def)

lemma safe_title_string:
  "map_of m ''title'' = Some (PStr t) \<Longrightarrow> safe_title (PDict m) = Some (filter allowed t)"
  by (simp add: safe_title_def join_kept_chars)

lemma api_filename_map:
  "api_filename safe = map (\<lambda>c. if c = CHR '' '' then CHR ''_'' else c) safe @ ''.mp4''"
  by (simp add: api_filename_def replace_char)

lemma admin_file_name_map:
  "admin_file_name t = map (\<lambda>c. if c = CHR '' '' then CHR ''_'' else c) t @ ''.mp4''"
  by (simp add: admin_file_name_def replace_char)

lemma api_key_characters:
  "list_all (\<lambda>c. isalnum c \<or> c = CHR ''_'' \<or> c = CHR ''-'')
     (replace '' '' ''_'' (filter allowed t))"
  by (induction t) (auto simp: replace_char allowed_def)

lemma api_key_stable:
  "filter allowed (replace '' '' ''_'' (filter allowed t)) = replace '' '' ''_'' (filter allowed t) \<and>
   replace '' '' ''_'' (replace '' '' ''_'' (filter allowed t)) = replace '' '' ''_'' (filter allowed t)"
  by (induction t) (auto simp: replace_char allowed_def)

text \<open>
  Claim C8: the storage key is derived from the title by first stripping it to
  alphanumeric characters, spaces, hyphens and underscores, and then replacing spaces by
  underscores. \<^verbatim>\<open>process_video\<close> (line 81) only replaces the spaces: the title
  \<^verbatim>\<open>AC/DC: Live?\<close> is uploaded under \<^verbatim>\<open>AC/DC:_Live?.mp4\<close>, where line 136 of api.py derives
  \<^verbatim>\<open>ACDC_Live.mp4\<close> from the same title.
\<close>

theorem process_video_keeps_unsafe_characters:
  "admin_file_name ''AC/DC: Live?'' = ''AC/DC:_Live?.mp4'' \<and>
   upload_keys (calls (process_video env_ok ''bytes'' ''AC/DC: Live?'' ''Other'' [] world0)) =
     [''AC/DC:_Live?.mp4''] \<and>
   map_option api_filename (safe_title (PDict [(''title'', PStr ''AC/DC: Live?'')])) =
     Some ''ACDC_Live.mp4''"
  by (simp add: admin_defs api_filename_def safe_title_def scen_defs)

subsection \<open>The trigger surface\<close>

text \<open>
  Claim C9, as amended: \<^verbatim>\<open>capture_video\<close> answers every request, whatever its URL, with
  the acknowledgement and schedules the run; the run scheduled for an empty URL stops at
  once, with no request made and nothing changed. The upload form starts a run exactly
  when it was submitted with a file and a non-empty title, and shows its warning exactly
  when it was submitted without one of them.
\<close>

theorem trigger_surface:
  "fst (capture_video url) =
     \<lparr>status = ''processing'', message = ''Fluency is curating this video...''\<rparr> \<and>
   is_acceptance (fst (capture_video url)) \<and>
   snd (capture_video url) = [url] \<and>
   run_pipeline e [] w = \<lparr>outcome = EmptyUrl, calls = [], final = w\<rparr> \<and>
   (upload_form submitted uploaded_file title' = Process v t) =
     (submitted \<and> uploaded_file = Some v \<and> title' \<noteq> [] \<and> t = title') \<and>
   (upload_form submitted uploaded_file title' =
      Warning ''Please upload a file and give it a title.'') =
     (submitted \<and> (uploaded_file = None \<or> title' = []))"
  by (auto simp: capture_video_def is_acceptance_def run_pipeline_def stop_def upload_form_def
      split: option.splits)

text \<open>The claim as stated fails: the empty URL is acknowledged like any other.\<close>

theorem capture_video_accepts_empty_url:
  "is_acceptance (fst (capture_video [])) \<and> snd (capture_video []) = [[]]"
  by (simp add: capture_video_def is_acceptance_def)

text \<open>A request with a URL, and the form with and without its file and its title.\<close>

theorem trigger_surface_witness:
  "is_acceptance (fst (capture_video ''https://example.org/v'')) \<and>
   snd (capture_video ''https://example.org/v'') = [''https://example.org/v''] \<and>
   run_pipeline env_ok [] world0 = \<lparr>outcome = EmptyUrl, calls = [], final = world0\<rparr> \<and>
   upload_form True (Some ''bytes'') ''My Title'' = Process ''bytes'' ''My Title'' \<and>
   upload_form True None ''My Title'' = Warning ''Please upload a file and give it a title.'' \<and>
   upload_form True (Some ''bytes'') [] = Warning ''Please upload a file and give it a title.''"
  using trigger_surface [where url = "''https://example.org/v''" and e = env_ok and w = world0
      and submitted = True and uploaded_file = "Some ''bytes''" and title' = "''My Title''"
      and v = "''bytes''" and t = "''My Title''"]
    trigger_surface [where url = "''https://example.org/v''" and e = env_ok and w = world0
      and submitted = True and uploaded_file = None and title' = "''My Title''"
      and v = "''bytes''" and t = "''My Title''"]
    trigger_surface [where url = "''https://example.org/v''" and e = env_ok and w = world0
      and submitted = True and uploaded_file = "Some ''bytes''" and title' = "[]"
      and v = "''bytes''" and t = "''My Title''"]
  by simp

subsection \<open>The key and the title when the reply has no title\<close>

lemma untitled_key:
  "map_option api_filename (safe_title (PDict [(''title'', PStr ''Untitled'')])) =
     Some ''Untitled.mp4''"
  by (simp add: api_filename_def safe_title_def scen_defs)

text \<open>The run with a reply that has no title, stage by stage.\<close>

lemma untitled_run_after [simp]:
  "untitled_run cl vs vp (after cs r) = untitled_run cl vs vp r"
  by (simp add: untitled_run_def after_def)

lemma untitled_run_stop:
  "out \<noteq> Done \<Longrightarrow> content_library w = cl \<Longrightarrow>
   (videos w)(''Video.mp4'' := None) = vs(''Video.mp4'' := None) \<Longrightarrow>
   untitled_run cl vs vp (stop out w)"
  by (simp add: untitled_run_def stop_def)

lemma api_save_db_videos:
  "videos (final (api_save_db e vp ap tt d meta qs pu w)) = videos w"
  by (simp add: api_save_db_def api_cleanup_def remove_if_exists_def after_def stop_def Let_def
      split: option.splits insert_reply.splits)

lemma api_save_db_content:
  assumes "dict_get meta ''category'' (PStr ''General'') = Some cv"
    and "dict_get meta ''sub_category'' PNone = Some sv"
    and "dict_get meta ''title'' (PStr ''Untitled'') = Some tv"
  shows "content_library (final (api_save_db e vp ap tt d meta qs pu w)) = content_library w \<and>
         outcome (api_save_db e vp ap tt d meta qs pu w) \<noteq> Done \<or>
         content_library (final (api_save_db e vp ap tt d meta qs pu w)) = content_library w @
           [PDict [(''video_url'', PStr pu), (''title'', tv), (''transcript_text'', PStr tt),
                   (''category'', cv), (''sub_category'', sv),
                   (''duration_seconds'', PInt (py_int d))]]"
  using assms
  by (cases "content_insert e")
     (simp_all add: api_save_db_def api_cleanup_def remove_if_exists_def after_def stop_def
        Let_def split: option.splits)

lemma api_save_db_untitled:
  assumes "map_of m ''title'' = None" and "content_library w = cl"
    and "(videos w)(''Video.mp4'' := None) = vs(''Video.mp4'' := None)"
    and "videos w ''Video.mp4'' = Some vp"
  shows "untitled_run cl vs vp (api_save_db e vp ap tt d (PDict m) qs pu w)"
proof -
  let ?r = "api_save_db e vp ap tt d (PDict m) qs pu w"
  let ?row = "PDict [(''video_url'', PStr pu), (''title'', PStr ''Untitled''),
      (''transcript_text'', PStr tt),
      (''category'', case map_of m ''category'' of None \<Rightarrow> PStr ''General'' | Some v \<Rightarrow> v),
      (''sub_category'', case map_of m ''sub_category'' of None \<Rightarrow> PNone | Some v \<Rightarrow> v),
      (''duration_seconds'', PInt (py_int d))]"
  have t: "dict_get (PDict m) ''title'' (PStr ''Untitled'') = Some (PStr ''Untitled'')"
    using assms(1) by simp
  have c: "content_library (final ?r) = content_library w \<and> outcome ?r \<noteq> Done \<or>
           content_library (final ?r) = content_library w @ [?row]"
    by (rule api_save_db_content [OF _ _ t]) simp_all
  have v: "videos (final ?r) = videos w" by (rule api_save_db_videos)
  have u: "subscript ?row ''title'' = Some (PStr ''Untitled'')" by simp
  from c show ?thesis
  proof
    assume "content_library (final ?r) = content_library w \<and> outcome ?r \<noteq> Done"
    then have "content_library (final ?r) = cl @ [] \<and> outcome ?r \<noteq> Done"
      using assms(2) by simp
    then show ?thesis unfolding untitled_run_def using v assms(3) by fastforce
  next
    assume "content_library (final ?r) = content_library w @ [?row]"
    then have "content_library (final ?r) = cl @ [?row]" using assms(2) by simp
    moreover have "list_all (\<lambda>row. subscript row ''title'' = Some (PStr ''Untitled'')) [?row]"
      using u by simp
    moreover have "length [?row] = 1" by simp
    ultimately show ?thesis unfolding untitled_run_def using v assms(3,4) by metis
  qed
qed

lemma api_upload_untitled:
  "map_of m ''title'' = None \<Longrightarrow> content_library w = cl \<Longrightarrow>
   (videos w)(''Video.mp4'' := None) = vs(''Video.mp4'' := None) \<Longrightarrow>
   untitled_run cl vs vp (api_upload e vp ap tt d (PDict m) qs w)"
  by (simp add: api_upload_def api_filename_def safe_title_default Let_def untitled_run_stop
      api_save_db_untitled split: option.splits)

lemma api_analyze_untitled:
  "chat_completion e = Some ai \<Longrightarrow> dict_get ai ''metadata'' (PDict []) = Some (PDict m) \<Longrightarrow>
   map_of m ''title'' = None \<Longrightarrow> content_library w = cl \<Longrightarrow>
   (videos w)(''Video.mp4'' := None) = vs(''Video.mp4'' := None) \<Longrightarrow>
   untitled_run cl vs vp (api_analyze e vp ap tt d w)"
  by (simp add: api_analyze_def untitled_run_stop api_upload_untitled split: option.splits)

lemma run_pipeline_untitled:
  "chat_completion e = Some ai \<Longrightarrow> dict_get ai ''metadata'' (PDict []) = Some (PDict m) \<Longrightarrow>
   map_of m ''title'' = None \<Longrightarrow>
   untitled_run (content_library w) (videos w)
     (case download_video e url of None \<Rightarrow> [] | Some (vp, t) \<Rightarrow> vp)
     (run_pipeline e url w)"
  by (simp add: run_pipeline_def api_extract_audio_def api_transcribe_def Let_def
      untitled_run_stop api_analyze_untitled split: option.splits prod.splits)

lemma missing_title_calls:
  assumes "chat_completion e = Some ai"
    and "dict_get ai ''metadata'' (PDict []) = Some (PDict m)"
    and "map_of m ''title'' = None"
  shows "(upload_keys (calls (run_pipeline e url w)) = [] \<or>
          upload_keys (calls (run_pipeline e url w)) = [''Video.mp4'']) \<and>
         (inserted_titles (calls (run_pipeline e url w)) = [] \<or>
          inserted_titles (calls (run_pipeline e url w)) = [Some (PStr ''Untitled'')]) \<and>
         (outcome (run_pipeline e url w) = Done \<longrightarrow>
            upload_keys (calls (run_pipeline e url w)) = [''Video.mp4''] \<and>
            inserted_titles (calls (run_pipeline e url w)) = [Some (PStr ''Untitled'')] \<and>
            videos (final (run_pipeline e url w)) ''Video.mp4'' \<noteq> None) \<and>
         map_option api_filename (safe_title (PDict [(''title'', PStr ''Untitled'')])) =
           Some ''Untitled.mp4''"
  using assms untitled_key
  by (simp add: run_pipeline_def download_video_def api_extract_audio_def api_transcribe_def
      api_analyze_def api_upload_def api_filename_def safe_title_default api_save_db_def
      api_cleanup_def remove_if_exists_def after_def stop_def Let_def
      split: option.splits prod.splits insert_reply.splits)

lemma missing_title_stores:
  assumes "chat_completion e = Some ai"
    and "dict_get ai ''metadata'' (PDict []) = Some (PDict m)"
    and "map_of m ''title'' = None"
  shows "content_library (final (run_pipeline e url w)) =
           content_library w @ added_content w (run_pipeline e url w) \<and>
         list_all (\<lambda>row. subscript row ''title'' = Some (PStr ''Untitled''))
           (added_content w (run_pipeline e url w)) \<and>
         (videos (final (run_pipeline e url w)))(''Video.mp4'' := None) =
           (videos w)(''Video.mp4'' := None) \<and>
         (outcome (run_pipeline e url w) = Done \<longrightarrow>
            length (added_content w (run_pipeline e url w)) = 1) \<and>
         (outcome (run_pipeline e url w) = Done \<and>
          ydl_extract_info e url = Some (video_path, src) \<longrightarrow>
            videos (final (run_pipeline e url w)) ''Video.mp4'' = Some video_path)"
proof -
  let ?r = "run_pipeline e url w"
  let ?vp = "case download_video e url of None \<Rightarrow> [] | Some (vp, t) \<Rightarrow> vp"
  from run_pipeline_untitled [OF assms, of w url] obtain rows where
    c: "content_library (final ?r) = content_library w @ rows" and
    t: "list_all (\<lambda>row. subscript row ''title'' = Some (PStr ''Untitled'')) rows" and
    v: "(videos (final ?r))(''Video.mp4'' := None) = (videos w)(''Video.mp4'' := None)" and
    d: "outcome ?r = Done \<longrightarrow> length rows = 1 \<and> videos (final ?r) ''Video.mp4'' = Some ?vp"
    unfolding untitled_run_def by blast
  have a: "added_content w ?r = rows" using c by (simp add: added_content_def)
  have p: "ydl_extract_info e url = Some (video_path, src) \<Longrightarrow> ?vp = video_path"
    by (simp add: download_video_def)
  from c t v d a p show ?thesis by simp
qed

text \<open>
  Claim C10: in \<^verbatim>\<open>run_pipeline\<close>, when the reply's metadata has no title, every upload of
  the run goes under the key \<^verbatim>\<open>Video.mp4\<close> and every content row sent holds the title
  \<^verbatim>\<open>Untitled\<close>. The stores agree: the content table grows by rows titled \<^verbatim>\<open>Untitled\<close>
  only, the bucket changes at the key \<^verbatim>\<open>Video.mp4\<close> at most, and a run that ends \<open>Done\<close>
  has appended exactly one such row and stored the downloaded file under \<^verbatim>\<open>Video.mp4\<close>.
  The key derived from the stored title would be \<^verbatim>\<open>Untitled.mp4\<close>.
\<close>

theorem missing_title_key_and_record:
  assumes "chat_completion e = Some ai"
    and "dict_get ai ''metadata'' (PDict []) = Some (PDict m)"
    and "map_of m ''title'' = None"
  shows "(upload_keys (calls (run_pipeline e url w)) = [] \<or>
          upload_keys (calls (run_pipeline e url w)) = [''Video.mp4'']) \<and>
         (inserted_titles (calls (run_pipeline e url w)) = [] \<or>
          inserted_titles (calls (run_pipeline e url w)) = [Some (PStr ''Untitled'')]) \<and>
         (outcome (run_pipeline e url w) = Done \<longrightarrow>
            upload_keys (calls (run_pipeline e url w)) = [''Video.mp4''] \<and>
            inserted_titles (calls (run_pipeline e url w)) = [Some (PStr ''Untitled'')] \<and>
            videos (final (run_pipeline e url w)) ''Video.mp4'' \<noteq> None) \<and>
         map_option api_filename (safe_title (PDict [(''title'', PStr ''Untitled'')])) =
           Some ''Untitled.mp4'' \<and>
         content_library (final (run_pipeline e url w)) =
           content_library w @ added_content w (run_pipeline e url w) \<and>
         list_all (\<lambda>row. subscript row ''title'' = Some (PStr ''Untitled''))
           (added_content w (run_pipeline e url w)) \<and>
         (videos (final (run_pipeline e url w)))(''Video.mp4'' := None) =
           (videos w)(''Video.mp4'' := None) \<and>
         (outcome (run_pipeline e url w) = Done \<longrightarrow>
            length (added_content w (run_pipeline e url w)) = 1) \<and>
         (outcome (run_pipeline e url w) = Done \<and>
          ydl_extract_info e url = Some (video_path, src) \<longrightarrow>
            videos (final (run_pipeline e url w)) ''Video.mp4'' = Some video_path)"
  using missing_title_calls [OF assms, of url w]
    missing_title_stores [OF assms, of url w video_path src]
  by blast

text \<open>Scenario D: the reply has no metadata at all.\<close>

theorem missing_title_key_and_record_witness:
  "chat_completion env_ok = Some (PDict [(''questions'', PList [])]) \<and>
   ydl_extract_info env_ok ''https://example.org/v'' = Some (''temp_abc.mp4'', Some ''Clip'') \<and>
   outcome (run_pipeline env_ok ''https://example.org/v'' world0) = Done \<and>
   upload_keys (calls (run_pipeline env_ok ''https://example.org/v'' world0)) = [''Video.mp4''] \<and>
   inserted_titles (calls (run_pipeline env_ok ''https://example.org/v'' world0)) =
     [Some (PStr ''Untitled'')] \<and>
   videos (final (run_pipeline env_ok ''https://example.org/v'' world0)) ''Video.mp4'' =
     Some ''temp_abc.mp4'' \<and>
   length (added_content world0 (run_pipeline env_ok ''https://example.org/v'' world0)) = 1 \<and>
   list_all (\<lambda>row. subscript row ''title'' = Some (PStr ''Untitled''))
     (added_content world0 (run_pipeline env_ok ''https://example.org/v'' world0)) \<and>
   content_library (final (run_pipeline env_ok ''https://example.org/v'' world0)) =
     [PDict [(''video_url'', PStr ''https://cdn.example/videos/x.mp4''),
             (''title'', PStr ''Untitled''),
             (''transcript_text'',
              PStr ''This is a valid transcript about gravity and motion in classical mechanics.''),
             (''category'', PStr ''General''), (''sub_category'', PNone),
             (''duration_seconds'', PInt 30)]]"
proof -
  have a: "chat_completion env_ok = Some (PDict [(''questions'', PList [])])"
    by (simp add: env_ok_def)
  have y: "ydl_extract_info env_ok ''https://example.org/v'' =
      Some (''temp_abc.mp4'', Some ''Clip'')"
    by (simp add: env_ok_def)
  have b: "outcome (run_pipeline env_ok ''https://example.org/v'' world0) = Done"
    by (simp add: api_defs scen_defs)
  have c: "content_library (final (run_pipeline env_ok ''https://example.org/v'' world0)) =
     [PDict [(''video_url'', PStr ''https://cdn.example/videos/x.mp4''),
             (''title'', PStr ''Untitled''),
             (''transcript_text'',
              PStr ''This is a valid transcript about gravity and motion in classical mechanics.''),
             (''category'', PStr ''General''), (''sub_category'', PNone),
             (''duration_seconds'', PInt 30)]]"
    by (simp add: api_defs scen_defs)
  show ?thesis
    using missing_title_key_and_record [OF a, of "[]" "''https://example.org/v''" world0
        "''temp_abc.mp4''" "Some ''Clip''"] a y b c
    by simp
qed

end
